theory Spec2Isabelle
  imports Main "HOL-Library.Word"
begin

unbundle bit_operations_syntax

section \<open>Values shared by the event module\<close>

text \<open>
  The values a class body can give an attribute, as far as \<open>len\<close> tells them apart: a
  Python 2 string \<open>str\<close> (a sequence of bytes), a text \<open>unicode\<close> (a sequence of code
  points), a list, and numbers and \<open>None\<close>, which have no length.
\<close>

datatype py_object =
    PyStr string
  | PyUnicode "nat list"
  | PyList "py_object list"
  | PyInt int
  | PyNone

text \<open>
  The exceptions the code can raise, as values. \<open>KeyError\<close> is a failed dictionary
  lookup, \<open>AttributeError\<close> a failed attribute lookup, \<open>IndexError\<close> a
  \<open>str.format\<close> call with too few arguments, \<open>TypeError\<close> a call of \<open>len\<close> on an
  object without a length, \<open>UnicodeEncodeError\<close> a text with a character beyond ASCII
  formatted into a \<open>str\<close>, \<open>UnboundLocalError\<close> a read of a local variable that no
  branch assigned.
\<close>

datatype error =
    EventTypeMissing string
  | EventTypeTooLong py_object
  | EventHandlerConfigurationError
  | KeyError string
  | AttributeError string
  | IndexError
  | TypeError
  | UnicodeEncodeError
  | UnboundLocalError string

text \<open>\<open>len(x)\<close>: the bytes of a \<open>str\<close>, the characters of a text, the items of a list.\<close>

fun py_len :: "py_object \<Rightarrow> error + nat" where
  "py_len (PyStr s) = Inr (length s)"
| "py_len (PyUnicode cs) = Inr (length cs)"
| "py_len (PyList xs) = Inr (length xs)"
| "py_len (PyInt i) = Inl TypeError"
| "py_len PyNone = Inl TypeError"


text \<open>
  The module constants \<open>SERVICE_POOL\<close>, \<open>SINGLETON\<close> and \<open>BROADCAST\<close> are three
  string objects. The code compares a handler type with them by identity (\<open>is\<close>), so a
  handler type is a reference: one of the three constants, or any other object, which is
  kept with its printed value. Equality of this datatype is Python's \<open>is\<close>; equality of
  \<open>py_value\<close> is Python's \<open>==\<close> on strings.
\<close>

datatype handler_type_ref = SERVICE_POOL | SINGLETON | BROADCAST | Other_object string

fun py_value :: "handler_type_ref \<Rightarrow> string" where
  "py_value SERVICE_POOL = ''service_pool''"
| "py_value SINGLETON = ''singleton''"
| "py_value BROADCAST = ''broadcast''"
| "py_value (Other_object s) = s"

text \<open>
  The fragment of \<open>str.format\<close> the module uses: every \<open>{}\<close> of the template is
  replaced by the next positional argument, all of them strings here, and every other
  character is copied; running out of arguments is an \<open>IndexError\<close>, arguments left
  over are ignored. The templates of the module have braces in such pairs only.
\<close>

fun format :: "string \<Rightarrow> string list \<Rightarrow> error + string" where
  "format [] args = Inr []"
| "format [c] args = Inr [c]"
| "format (c # d # rest) args =
     (if c = CHR ''{'' \<and> d = CHR ''}'' then
        (case args of
           [] \<Rightarrow> Inl IndexError
         | a # args' \<Rightarrow>
             (case format rest args' of Inl e \<Rightarrow> Inl e | Inr s \<Rightarrow> Inr (a @ s)))
      else
        (case format (d # rest) args of Inl e \<Rightarrow> Inl e | Inr s \<Rightarrow> Inr (c # s)))"

text \<open>
  A UUID is a 128-bit number. Its text, as \<open>str\<close> of a \<open>uuid.UUID\<close> gives it, is the
  32 hexadecimal digits of the number, most significant first, in groups of
  8, 4, 4, 4 and 12 separated by hyphens.
\<close>

type_synonym uuid = "128 word"

definition hex_digit :: "nat \<Rightarrow> char" where
  "hex_digit n = ''0123456789abcdef'' ! n"

definition nibble :: "uuid \<Rightarrow> nat \<Rightarrow> nat" where
  "nibble w i = unat (drop_bit (4 * i) w AND 15)"

definition uuid_hex :: "uuid \<Rightarrow> string" where
  "uuid_hex w = map (\<lambda>i. hex_digit (nibble w (31 - i))) [0..<32]"

definition str_uuid :: "uuid \<Rightarrow> string" where
  "str_uuid w =
     (let h = uuid_hex w in
      take 8 h @ ''-'' @ take 4 (drop 8 h) @ ''-'' @ take 4 (drop 12 h) @ ''-'' @
      take 4 (drop 16 h) @ ''-'' @ drop 20 h)"

section \<open>The event exchange\<close>

text \<open>
  Modelled from the spec: \<open>PERSISTENT\<close> is imported from \<open>nameko.messaging\<close>, which
  is not among the sources; the spec calls it the persistent delivery mode. The delivery
  modes of a message are transient and persistent.
\<close>

datatype delivery_mode = TRANSIENT | PERSISTENT

record exchange =
  ex_name :: string
  ex_type :: string
  ex_durable :: bool
  ex_auto_delete :: bool
  ex_delivery_mode :: delivery_mode

text \<open>\<open>get_event_exchange(service_name)\<close>: no state is read or written.\<close>

definition get_event_exchange :: "string \<Rightarrow> error + exchange" where
  "get_event_exchange service_name =
     (case format ''{}.events'' [service_name] of
        Inl e \<Rightarrow> Inl e
      | Inr exchange_name \<Rightarrow>
          Inr \<lparr>ex_name = exchange_name, ex_type = ''topic'', ex_durable = True,
               ex_auto_delete = True, ex_delivery_mode = PERSISTENT\<rparr>)"

section \<open>Event kinds and events\<close>

text \<open>
  \<open>EventTypeTooLong.__init__(self, event_type)\<close> formats the type into its message, a
  \<open>str\<close>. In Python 2 that encodes a text as ASCII, so for a text with a character
  beyond ASCII the exception that leaves the constructor is a \<open>UnicodeEncodeError\<close>.
\<close>

definition EventTypeTooLong_init :: "py_object \<Rightarrow> error" where
  "EventTypeTooLong_init event_type =
     (case event_type of
        PyUnicode cs \<Rightarrow>
          if list_all (\<lambda>c. c < 128) cs then EventTypeTooLong event_type
          else UnicodeEncodeError
      | _ \<Rightarrow> EventTypeTooLong event_type)"

text \<open>
  \<open>EventMeta.__new__(mcs, name, bases, dct)\<close> runs when a class with this metaclass is
  defined. \<open>dct\<close> holds the attributes the class body itself declares (not the inherited
  ones), with whatever values it gives them; on success the class is created from the
  three arguments unchanged.
\<close>

record event_kind =
  kind_name :: string
  kind_bases :: "string list"
  kind_dct :: "string \<rightharpoonup> py_object"

definition EventMeta_new ::
  "string \<Rightarrow> string list \<Rightarrow> (string \<rightharpoonup> py_object) \<Rightarrow> error + event_kind" where
  "EventMeta_new name bases dct =
     (case dct ''type'' of
        None \<Rightarrow> Inl (EventTypeMissing name)
      | Some event_type \<Rightarrow>
          (case py_len event_type of
             Inl e \<Rightarrow> Inl e
           | Inr n \<Rightarrow>
               if n > 255 then Inl (EventTypeTooLong_init event_type)
               else Inr \<lparr>kind_name = name, kind_bases = bases, kind_dct = dct\<rparr>))"

text \<open>
  \<open>Event.__init__(self, data)\<close> stores the payload and checks nothing. The attribute
  \<open>type\<close> of an instance is looked up in its class.
\<close>

record 'a event =
  ev_kind :: event_kind
  ev_data :: 'a

definition Event_init :: "event_kind \<Rightarrow> 'a \<Rightarrow> 'a event" where
  "Event_init kind data = \<lparr>ev_kind = kind, ev_data = data\<rparr>"

definition ev_type :: "'a event \<Rightarrow> py_object option" where
  "ev_type evt = kind_dct (ev_kind evt) ''type''"

section \<open>The event dispatcher\<close>

text \<open>
  A service context is a dictionary; \<open>srv_ctx['name']\<close> is the name of the service the
  container runs. \<open>EventDispatcher.start\<close> stores the exchange in the instance.
  \<open>EventDispatcher.__call__\<close> hands the payload and the routing key to
  \<open>Publisher.__call__\<close>, which is defined in \<open>nameko.messaging\<close> and not among the
  sources: it is the parameter \<open>Publisher_call\<close>, which receives the instance, the
  message and the routing key.
\<close>

type_synonym srv_ctx = "string \<rightharpoonup> string"

record event_dispatcher =
  ed_exchange :: "exchange option"

definition EventDispatcher_start :: "event_dispatcher \<Rightarrow> srv_ctx \<Rightarrow> error + event_dispatcher" where
  "EventDispatcher_start self srv_ctx =
     (case srv_ctx ''name'' of
        None \<Rightarrow> Inl (KeyError ''name'')
      | Some name \<Rightarrow>
          (case get_event_exchange name of
             Inl e \<Rightarrow> Inl e
           | Inr exchange \<Rightarrow> Inr (self\<lparr>ed_exchange := Some exchange\<rparr>)))"

definition EventDispatcher_call ::
  "(event_dispatcher \<Rightarrow> 'a \<Rightarrow> py_object \<Rightarrow> 'r) \<Rightarrow> event_dispatcher \<Rightarrow> 'a event \<Rightarrow> error + 'r" where
  "EventDispatcher_call Publisher_call self evt =
     (let msg = ev_data evt in
      case ev_type evt of
        None \<Rightarrow> Inl (AttributeError ''type'')
      | Some routing_key \<Rightarrow> Inr (Publisher_call self msg routing_key))"

section \<open>Event handlers\<close>

record queue =
  q_name :: string
  q_exchange :: exchange
  q_routing_key :: string
  q_durable :: bool
  q_auto_delete :: bool

text \<open>
  An \<open>EventHandler\<close> instance. \<open>__init__\<close> sets the five attributes it is given;
  \<open>queue\<close> is set by \<open>start\<close> only, so it is absent (\<open>None\<close>) before. The
  attributes carry the prefix \<open>eh_\<close>: the plain names are the parameters of the
  module's functions.
\<close>

record event_handler_obj =
  eh_service_name :: string
  eh_event_type :: string
  eh_handler_type :: handler_type_ref
  eh_reliable_delivery :: bool
  eh_requeue_on_error :: bool
  eh_queue :: "queue option"

definition EventHandler_init ::
  "string \<Rightarrow> string \<Rightarrow> handler_type_ref \<Rightarrow> bool \<Rightarrow> bool \<Rightarrow> event_handler_obj" where
  "EventHandler_init service_name event_type handler_type reliable_delivery requeue_on_error =
     \<lparr>eh_service_name = service_name, eh_event_type = event_type,
      eh_handler_type = handler_type, eh_reliable_delivery = reliable_delivery,
      eh_requeue_on_error = requeue_on_error, eh_queue = None\<rparr>"

text \<open>
  The body of \<open>event_handler\<close>. (The \<open>dependency_decorator\<close> around it belongs to
  \<open>nameko.dependencies\<close>, which is not among the sources.)
\<close>

definition event_handler ::
  "string \<Rightarrow> string \<Rightarrow> handler_type_ref \<Rightarrow> bool \<Rightarrow> bool \<Rightarrow> error + event_handler_obj" where
  "event_handler service_name event_type handler_type reliable_delivery requeue_on_error =
     (if reliable_delivery \<and> handler_type = BROADCAST then Inl EventHandlerConfigurationError
      else Inr (EventHandler_init service_name event_type handler_type
                  reliable_delivery requeue_on_error))"

text \<open>
  \<open>EventHandler.start(self, srv_ctx)\<close>; the debug line it logs first does not touch the
  result. The argument \<open>u\<close> is the value that
  \<open>uuid.uuid4()\<close> returns when the broadcast branch calls it. The local variable
  \<open>queue_name\<close> is \<open>None\<close> while no branch has assigned it; reading it then is an
  \<open>UnboundLocalError\<close>. The method ends by calling \<open>ConsumeProvider.start\<close> of
  \<open>nameko.messaging\<close>, which is not among the sources: it is the parameter
  \<open>ConsumeProvider_start\<close>, which receives the instance with its queue set.
\<close>

definition start ::
  "(event_handler_obj \<Rightarrow> srv_ctx \<Rightarrow> 'r) \<Rightarrow> event_handler_obj \<Rightarrow> srv_ctx \<Rightarrow> uuid \<Rightarrow> error + 'r" where
  "start ConsumeProvider_start self srv_ctx u =
     (case
        (if eh_handler_type self = SERVICE_POOL then
           (case srv_ctx ''name'' of
              None \<Rightarrow> Inl (KeyError ''name'')
            | Some dest \<Rightarrow>
                map_sum id Some
                  (format ''evt-{}-{}-{}'' [eh_service_name self, eh_event_type self, dest]))
         else if eh_handler_type self = SINGLETON then
           map_sum id Some (format ''evt-{}-{}'' [eh_service_name self, eh_event_type self])
         else if eh_handler_type self = BROADCAST then
           map_sum id Some
             (format ''evt-{}-{}-{}'' [eh_service_name self, eh_event_type self, str_uuid u])
         else Inr None)
      of
        Inl e \<Rightarrow> Inl e
      | Inr queue_name \<Rightarrow>
          (case get_event_exchange (eh_service_name self) of
             Inl e \<Rightarrow> Inl e
           | Inr exchange \<Rightarrow>
               (let auto_delete = \<not> eh_reliable_delivery self in
                case queue_name of
                  None \<Rightarrow> Inl (UnboundLocalError ''queue_name'')
                | Some qn \<Rightarrow>
                    Inr (ConsumeProvider_start
                           (self\<lparr>eh_queue :=
                              Some \<lparr>q_name = qn, q_exchange = exchange,
                                    q_routing_key = eh_event_type self, q_durable = True,
                                    q_auto_delete = auto_delete\<rparr>\<rparr>)
                           srv_ctx))))"

text \<open>
  The continuation that returns the instance as \<open>start\<close> hands it over: with it,
  \<open>start\<close> yields the handler state at the moment \<open>ConsumeProvider.start\<close> is entered.
\<close>

definition handed_over :: "event_handler_obj \<Rightarrow> srv_ctx \<Rightarrow> event_handler_obj" where
  "handed_over self srv_ctx = self"

text \<open>
  \<open>self.queue\<close> read after \<open>self.start(srv_ctx)\<close>, on the instance as \<open>start\<close> hands
  it over: the error of \<open>start\<close> when it raises, an \<open>AttributeError\<close> when the
  attribute was never set.
\<close>

definition started_queue :: "event_handler_obj \<Rightarrow> srv_ctx \<Rightarrow> uuid \<Rightarrow> error + queue" where
  "started_queue self srv_ctx u =
     (case start handed_over self srv_ctx u of
        Inl e \<Rightarrow> Inl e
      | Inr self' \<Rightarrow>
          (case eh_queue self' of None \<Rightarrow> Inl (AttributeError ''queue'') | Some q \<Rightarrow> Inr q))"

section \<open>Worker contexts and the call id stack\<close>

text \<open>The decimal text of a natural number, as \<open>str\<close> gives it.\<close>

function str_nat :: "nat \<Rightarrow> string" where
  "str_nat n =
     (if n < 10 then [''0123456789'' ! n]
      else str_nat (n div 10) @ [''0123456789'' ! (n mod 10)])"
  by pat_completeness auto
termination
  by (relation "measure id") auto

declare str_nat.simps [simp del]

text \<open>
  \<open>WorkerContext\<close> is defined in \<open>nameko.containers\<close>, which is not among the sources
  (only its tests are); the definitions of this section follow the spec. Of a container
  they need the service name and the maximum depth of the configuration, \<open>None\<close> when
  the configuration has none. A context is kept as its three results.
\<close>

record container =
  container_service_name :: string
  container_parent_calls :: "nat option"

record worker_context =
  call_id :: string
  call_id_stack :: "string list"
  immediate_parent_call_id :: "string option"

text \<open>
  Modelled from the spec: the inherited stack of \<open>WorkerContext\<close> (in
  \<open>nameko.containers\<close>, not among the sources) is \<open>data['call_id_stack']\<close>, empty when
  the entry or \<open>data\<close> itself is absent.
\<close>

definition inherited_stack :: "(string \<rightharpoonup> string list) option \<Rightarrow> string list" where
  "inherited_stack data =
     (case data of
        None \<Rightarrow> []
      | Some d \<Rightarrow> (case d ''call_id_stack'' of None \<Rightarrow> [] | Some s \<Rightarrow> s))"

text \<open>
  Modelled from the spec: the constructor of \<open>WorkerContext\<close> (in
  \<open>nameko.containers\<close>, not among the sources). The call id is
  \<open>{service_name}.{entrypoint_name}.{sequence_number}\<close>, with a process-wide sequence
  that is threaded through as state; when a maximum depth is configured and the
  inherited stack is longer, the last \<open>cap\<close> entries of it are kept; the own call id is
  appended; the immediate parent is the last entry of the inherited stack as passed in,
  absent when that stack is empty.
\<close>

definition WorkerContext ::
  "container \<Rightarrow> string \<Rightarrow> (string \<rightharpoonup> string list) option \<Rightarrow> nat \<Rightarrow> worker_context \<times> nat" where
  "WorkerContext cont entrypoint_name data seq =
     (let inherited = inherited_stack data;
          own = container_service_name cont @ ''.'' @ entrypoint_name @ ''.'' @ str_nat seq;
          kept =
            (case container_parent_calls cont of
               None \<Rightarrow> inherited
             | Some cap \<Rightarrow>
                 if length inherited > cap then drop (length inherited - cap) inherited
                 else inherited)
      in (\<lparr>call_id = own, call_id_stack = kept @ [own],
           immediate_parent_call_id =
             (if inherited = [] then None else Some (last inherited))\<rparr>,
          Suc seq))"

section \<open>String formatting and UUID texts\<close>

lemma format_events: "format ''{}.events'' [s] = Inr (s @ ''.events'')"
  by simp

lemma format_evt3:
  "format ''evt-{}-{}-{}'' [a, b, c] = Inr (''evt-'' @ a @ ''-'' @ b @ ''-'' @ c)"
  by simp

lemma format_evt2: "format ''evt-{}-{}'' [a, b] = Inr (''evt-'' @ a @ ''-'' @ b)"
  by simp

lemma length_uuid_hex: "length (uuid_hex w) = 32"
  by (simp add: uuid_hex_def)

lemma length_str_uuid: "length (str_uuid w) = 36"
  by (simp add: str_uuid_def Let_def length_uuid_hex)

lemma nibble_take_bit: "nibble w i = unat (take_bit 4 (drop_bit (4 * i) w))"
proof -
  have "drop_bit (4 * i) w AND 15 = take_bit 4 (drop_bit (4 * i) w)"
    by (simp add: take_bit_eq_mask mask_eq_exp_minus_1)
  then show ?thesis
    by (simp add: nibble_def)
qed

lemma nibble_less: "nibble w i < 16"
proof -
  have "nibble w i = take_bit 4 (unat (drop_bit (4 * i) w))"
    by (simp add: nibble_take_bit unsigned_take_bit_eq)
  also have "\<dots> < 2 ^ 4"
    by (rule take_bit_nat_less_exp)
  finally show ?thesis by simp
qed

lemma bit_nibble: "bit (nibble w i) m = (m < 4 \<and> bit w (4 * i + m))"
  by (simp add: nibble_take_bit bit_unsigned_iff bit_take_bit_iff bit_drop_bit_eq)

lemma hex_digit_inj:
  assumes "n < 16" and "m < 16" and "hex_digit n = hex_digit m"
  shows "n = m"
proof -
  have d: "distinct ''0123456789abcdef''" by simp
  have l: "length ''0123456789abcdef'' = 16" by simp
  from assms show "n = m"
    unfolding hex_digit_def using nth_eq_iff_index_eq [OF d, of n m] l by simp
qed

lemma hex_digit_not_hyphen:
  assumes "n < 16"
  shows "hex_digit n \<noteq> CHR ''-''"
proof -
  from assms have "n < length ''0123456789abcdef''" by simp
  then have "hex_digit n \<in> set ''0123456789abcdef''"
    unfolding hex_digit_def by (rule nth_mem)
  moreover have "CHR ''-'' \<notin> set ''0123456789abcdef''" by simp
  ultimately show ?thesis by metis
qed

text \<open>Two UUIDs with the same hexadecimal digits agree on every bit.\<close>

lemma uuid_hex_inj:
  assumes "uuid_hex a = uuid_hex b"
  shows "a = b"
proof (rule bit_eqI)
  fix n
  assume "possible_bit TYPE(128 word) n"
  then have "n < 128" by (simp add: possible_bit_def)
  then have i: "n div 4 < 32" by simp
  from assms
  have "\<forall>i\<in>set [0..<32]. hex_digit (nibble a (31 - i)) = hex_digit (nibble b (31 - i))"
    unfolding uuid_hex_def by (simp only: map_eq_conv)
  moreover have "31 - n div 4 \<in> set [0..<32]" by simp
  ultimately
  have "hex_digit (nibble a (31 - (31 - n div 4))) = hex_digit (nibble b (31 - (31 - n div 4)))"
    by blast
  moreover have "31 - (31 - n div 4) = n div 4" using i by simp
  ultimately have "hex_digit (nibble a (n div 4)) = hex_digit (nibble b (n div 4))" by simp
  then have "nibble a (n div 4) = nibble b (n div 4)"
    using hex_digit_inj nibble_less by blast
  then have "bit (nibble a (n div 4)) (n mod 4) = bit (nibble b (n div 4)) (n mod 4)" by simp
  then show "bit a n = bit b n"
    by (simp add: bit_nibble)
qed

text \<open>Dropping the hyphens of a UUID text leaves its hexadecimal digits.\<close>

lemma str_uuid_hex: "filter (\<lambda>c. c \<noteq> CHR ''-'') (str_uuid w) = uuid_hex w"
proof -
  let ?h = "uuid_hex w"
  have a: "\<forall>c\<in>set ?h. c \<noteq> CHR ''-''"
    using hex_digit_not_hyphen nibble_less by (auto simp: uuid_hex_def)
  have f: "filter (\<lambda>c. c \<noteq> CHR ''-'') xs = xs" if "set xs \<subseteq> set ?h" for xs
    using a that by (auto simp: filter_id_conv)
  have "filter (\<lambda>c. c \<noteq> CHR ''-'') (str_uuid w) =
      take 8 ?h @ take 4 (drop 8 ?h) @ take 4 (drop 12 ?h) @ take 4 (drop 16 ?h) @ drop 20 ?h"
    unfolding str_uuid_def Let_def filter_append
    using f [OF set_take_subset] f [OF set_drop_subset]
      f [OF subset_trans [OF set_take_subset set_drop_subset]]
    by simp
  also have "\<dots> = ?h"
  proof -
    have 1: "take 4 (drop 16 ?h) @ drop 20 ?h = drop 16 ?h"
      using append_take_drop_id [of 4 "drop 16 ?h"] by simp
    have 2: "take 4 (drop 12 ?h) @ drop 16 ?h = drop 12 ?h"
      using append_take_drop_id [of 4 "drop 12 ?h"] by simp
    have 3: "take 4 (drop 8 ?h) @ drop 12 ?h = drop 8 ?h"
      using append_take_drop_id [of 4 "drop 8 ?h"] by simp
    show ?thesis by (simp only: 1 2 3 append_take_drop_id)
  qed
  finally show ?thesis .
qed

lemma str_uuid_inj: "str_uuid a = str_uuid b \<Longrightarrow> a = b"
  using str_uuid_hex [of a] str_uuid_hex [of b] uuid_hex_inj by simp

lemma str_uuid_example:
  "str_uuid 0x0123456789abcdef0123456789abcdef = ''01234567-89ab-cdef-0123-456789abcdef''"
  by code_simp

section \<open>The exchange of a service\<close>

lemma get_event_exchange_eq:
  "get_event_exchange service_name =
     Inr \<lparr>ex_name = service_name @ ''.events'', ex_type = ''topic'', ex_durable = True,
          ex_auto_delete = True, ex_delivery_mode = PERSISTENT\<rparr>"
  by (simp only: get_event_exchange_def format_events sum.case)

text \<open>
  C6: \<open>get_event_exchange\<close> is a function of the service name alone (it takes and returns
  no state, so two calls with the same name give equal descriptors); for every service
  name it succeeds with the exchange named \<open>{service_name}.events\<close>, of type topic,
  durable, auto-deleted, with the persistent delivery mode.
\<close>

theorem get_event_exchange_descriptor:
  "\<exists>x. get_event_exchange service_name = Inr x
     \<and> ex_name x = service_name @ ''.events''
     \<and> ex_type x = ''topic''
     \<and> ex_durable x = True
     \<and> ex_auto_delete x = True
     \<and> ex_delivery_mode x = PERSISTENT"
  by (simp add: get_event_exchange_eq)

section \<open>Registering an event handler\<close>

text \<open>
  C1: \<open>event_handler\<close> raises \<open>EventHandlerConfigurationError\<close> exactly when the handler
  type is \<open>BROADCAST\<close> and delivery is reliable; in every other case it returns the
  handler built from its five arguments.
\<close>

theorem event_handler_raises_iff_reliable_broadcast:
  "(event_handler service_name event_type handler_type reliable_delivery requeue_on_error
        = Inl EventHandlerConfigurationError)
      = (handler_type = BROADCAST \<and> reliable_delivery)
   \<and> (event_handler service_name event_type handler_type reliable_delivery requeue_on_error
        = Inr (EventHandler_init service_name event_type handler_type
                 reliable_delivery requeue_on_error))
      = (\<not> (handler_type = BROADCAST \<and> reliable_delivery))"
  by (auto simp: event_handler_def)

text \<open>The six combinations of the three constants with the two delivery flags.\<close>

lemma event_handler_combinations:
  "event_handler s t BROADCAST True r = Inl EventHandlerConfigurationError"
  "event_handler s t BROADCAST False r = Inr (EventHandler_init s t BROADCAST False r)"
  "event_handler s t SERVICE_POOL True r = Inr (EventHandler_init s t SERVICE_POOL True r)"
  "event_handler s t SERVICE_POOL False r = Inr (EventHandler_init s t SERVICE_POOL False r)"
  "event_handler s t SINGLETON True r = Inr (EventHandler_init s t SINGLETON True r)"
  "event_handler s t SINGLETON False r = Inr (EventHandler_init s t SINGLETON False r)"
  by (simp_all add: event_handler_def)

section \<open>Starting an event handler\<close>

text \<open>
  \<open>start\<close> by cases of the handler type, with the two \<open>format\<close> calls and the exchange
  evaluated.
\<close>

lemma start_eq:
  "start P self srv_ctx u =
     (case eh_handler_type self of
        SERVICE_POOL \<Rightarrow>
          (case srv_ctx ''name'' of
             None \<Rightarrow> Inl (KeyError ''name'')
           | Some dest \<Rightarrow>
               Inr (P (self\<lparr>eh_queue := Some
                      \<lparr>q_name = ''evt-'' @ eh_service_name self @ ''-'' @ eh_event_type self
                                  @ ''-'' @ dest,
                       q_exchange =
                         \<lparr>ex_name = eh_service_name self @ ''.events'', ex_type = ''topic'',
                          ex_durable = True, ex_auto_delete = True,
                          ex_delivery_mode = PERSISTENT\<rparr>,
                       q_routing_key = eh_event_type self, q_durable = True,
                       q_auto_delete = (\<not> eh_reliable_delivery self)\<rparr>\<rparr>) srv_ctx))
      | SINGLETON \<Rightarrow>
          Inr (P (self\<lparr>eh_queue := Some
                 \<lparr>q_name = ''evt-'' @ eh_service_name self @ ''-'' @ eh_event_type self,
                  q_exchange =
                    \<lparr>ex_name = eh_service_name self @ ''.events'', ex_type = ''topic'',
                     ex_durable = True, ex_auto_delete = True,
                     ex_delivery_mode = PERSISTENT\<rparr>,
                  q_routing_key = eh_event_type self, q_durable = True,
                  q_auto_delete = (\<not> eh_reliable_delivery self)\<rparr>\<rparr>) srv_ctx)
      | BROADCAST \<Rightarrow>
          Inr (P (self\<lparr>eh_queue := Some
                 \<lparr>q_name = ''evt-'' @ eh_service_name self @ ''-'' @ eh_event_type self
                             @ ''-'' @ str_uuid u,
                  q_exchange =
                    \<lparr>ex_name = eh_service_name self @ ''.events'', ex_type = ''topic'',
                     ex_durable = True, ex_auto_delete = True,
                     ex_delivery_mode = PERSISTENT\<rparr>,
                  q_routing_key = eh_event_type self, q_durable = True,
                  q_auto_delete = (\<not> eh_reliable_delivery self)\<rparr>\<rparr>) srv_ctx)
      | Other_object s \<Rightarrow> Inl (UnboundLocalError ''queue_name''))"
  unfolding start_def get_event_exchange_eq format_evt3 format_evt2
  by (simp split: handler_type_ref.split option.split)

text \<open>
  Whatever \<open>ConsumeProvider.start\<close> does, it is entered with the instance that
  \<open>start handed_over\<close> returns, and only when \<open>start\<close> has not raised before.
\<close>

lemma start_delegates:
  "start P self srv_ctx u = map_sum id (\<lambda>s. P s srv_ctx) (start handed_over self srv_ctx u)"
  unfolding start_eq [of P] start_eq [of handed_over]
  by (simp add: handed_over_def split: handler_type_ref.split option.split)

lemma started_queue_eq:
  "started_queue self srv_ctx u =
     (case eh_handler_type self of
        SERVICE_POOL \<Rightarrow>
          (case srv_ctx ''name'' of
             None \<Rightarrow> Inl (KeyError ''name'')
           | Some dest \<Rightarrow>
               Inr \<lparr>q_name = ''evt-'' @ eh_service_name self @ ''-'' @ eh_event_type self
                               @ ''-'' @ dest,
                    q_exchange =
                      \<lparr>ex_name = eh_service_name self @ ''.events'', ex_type = ''topic'',
                       ex_durable = True, ex_auto_delete = True,
                       ex_delivery_mode = PERSISTENT\<rparr>,
                    q_routing_key = eh_event_type self, q_durable = True,
                    q_auto_delete = (\<not> eh_reliable_delivery self)\<rparr>)
      | SINGLETON \<Rightarrow>
          Inr \<lparr>q_name = ''evt-'' @ eh_service_name self @ ''-'' @ eh_event_type self,
               q_exchange =
                 \<lparr>ex_name = eh_service_name self @ ''.events'', ex_type = ''topic'',
                  ex_durable = True, ex_auto_delete = True, ex_delivery_mode = PERSISTENT\<rparr>,
               q_routing_key = eh_event_type self, q_durable = True,
               q_auto_delete = (\<not> eh_reliable_delivery self)\<rparr>
      | BROADCAST \<Rightarrow>
          Inr \<lparr>q_name = ''evt-'' @ eh_service_name self @ ''-'' @ eh_event_type self
                          @ ''-'' @ str_uuid u,
               q_exchange =
                 \<lparr>ex_name = eh_service_name self @ ''.events'', ex_type = ''topic'',
                  ex_durable = True, ex_auto_delete = True, ex_delivery_mode = PERSISTENT\<rparr>,
               q_routing_key = eh_event_type self, q_durable = True,
               q_auto_delete = (\<not> eh_reliable_delivery self)\<rparr>
      | Other_object s \<Rightarrow> Inl (UnboundLocalError ''queue_name''))"
  unfolding started_queue_def start_eq
  by (simp add: handed_over_def split: handler_type_ref.split option.split)

text \<open>
  C2: when the service context gives the container's name \<open>dest\<close>, a handler for the
  events \<open>event_type\<close> of \<open>service_name\<close> starts with the queue name
  \<open>evt-{service_name}-{event_type}-{dest}\<close> for \<open>SERVICE_POOL\<close>,
  \<open>evt-{service_name}-{event_type}\<close> for \<open>SINGLETON\<close>, and
  \<open>evt-{service_name}-{event_type}-{u}\<close> for \<open>BROADCAST\<close>, where \<open>u\<close> is the text of
  the UUID that \<open>uuid.uuid4()\<close> returned to this start.
\<close>

theorem start_queue_name_by_handler_type:
  assumes "srv_ctx ''name'' = Some dest"
  shows "map_sum id q_name
           (started_queue (EventHandler_init service_name event_type SERVICE_POOL rd rq) srv_ctx u)
           = Inr (''evt-'' @ service_name @ ''-'' @ event_type @ ''-'' @ dest)
       \<and> map_sum id q_name
           (started_queue (EventHandler_init service_name event_type SINGLETON rd rq) srv_ctx u)
           = Inr (''evt-'' @ service_name @ ''-'' @ event_type)
       \<and> map_sum id q_name
           (started_queue (EventHandler_init service_name event_type BROADCAST rd rq) srv_ctx u)
           = Inr (''evt-'' @ service_name @ ''-'' @ event_type @ ''-'' @ str_uuid u)"
  using assms by (simp add: started_queue_eq EventHandler_init_def)

theorem start_queue_name_by_handler_type_witness:
  "[''name'' \<mapsto> ''listener''] ''name'' = Some ''listener'' \<and>
   map_sum id q_name
     (started_queue (EventHandler_init ''spammer'' ''spam.ham'' SERVICE_POOL False False)
        [''name'' \<mapsto> ''listener''] 0x0123456789abcdef0123456789abcdef)
     = Inr ''evt-spammer-spam.ham-listener'' \<and>
   map_sum id q_name
     (started_queue (EventHandler_init ''spammer'' ''spam.ham'' SINGLETON False False)
        [''name'' \<mapsto> ''listener''] 0x0123456789abcdef0123456789abcdef)
     = Inr ''evt-spammer-spam.ham'' \<and>
   map_sum id q_name
     (started_queue (EventHandler_init ''spammer'' ''spam.ham'' BROADCAST False False)
        [''name'' \<mapsto> ''listener''] 0x0123456789abcdef0123456789abcdef)
     = Inr ''evt-spammer-spam.ham-01234567-89ab-cdef-0123-456789abcdef''"
proof -
  have n: "[''name'' \<mapsto> ''listener''] ''name'' = Some ''listener''" by simp
  show ?thesis
    using start_queue_name_by_handler_type
      [where srv_ctx = "[''name'' \<mapsto> ''listener'']" and dest = "''listener''"
         and service_name = "''spammer''" and event_type = "''spam.ham''"
         and rd = False and rq = False
         and u = "0x0123456789abcdef0123456789abcdef", OF n]
    unfolding str_uuid_example by simp
qed

text \<open>
  C5: when \<open>start\<close> has set the queue of a handler, that queue is bound to the exchange
  \<open>get_event_exchange\<close> gives for the handler's source service, its routing key is the
  handler's event type, it is durable, and it is auto-deleted exactly when delivery is
  not reliable. Nothing of the handler but its queue has changed.
\<close>

theorem start_queue_binding:
  assumes "started_queue self srv_ctx u = Inr q"
  shows "start handed_over self srv_ctx u = Inr (self\<lparr>eh_queue := Some q\<rparr>)
       \<and> get_event_exchange (eh_service_name self) = Inr (q_exchange q)
       \<and> q_routing_key q = eh_event_type self
       \<and> q_durable q = True
       \<and> q_auto_delete q = (\<not> eh_reliable_delivery self)"
  using assms unfolding started_queue_eq start_eq get_event_exchange_eq
  by (auto simp: handed_over_def split: handler_type_ref.splits option.splits)

theorem start_queue_binding_witness:
  "started_queue (EventHandler_init ''spammer'' ''spam.ham'' SERVICE_POOL True False)
      [''name'' \<mapsto> ''listener''] 0
     = Inr \<lparr>q_name = ''evt-spammer-spam.ham-listener'',
            q_exchange =
              \<lparr>ex_name = ''spammer.events'', ex_type = ''topic'', ex_durable = True,
               ex_auto_delete = True, ex_delivery_mode = PERSISTENT\<rparr>,
            q_routing_key = ''spam.ham'', q_durable = True, q_auto_delete = False\<rparr>
   \<and> get_event_exchange ''spammer''
     = Inr \<lparr>ex_name = ''spammer.events'', ex_type = ''topic'', ex_durable = True,
            ex_auto_delete = True, ex_delivery_mode = PERSISTENT\<rparr>
   \<and> started_queue (EventHandler_init ''spammer'' ''spam.ham'' BROADCAST False False)
      [''name'' \<mapsto> ''listener''] 0
     = Inr \<lparr>q_name = ''evt-spammer-spam.ham-00000000-0000-0000-0000-000000000000'',
            q_exchange =
              \<lparr>ex_name = ''spammer.events'', ex_type = ''topic'', ex_durable = True,
               ex_auto_delete = True, ex_delivery_mode = PERSISTENT\<rparr>,
            q_routing_key = ''spam.ham'', q_durable = True, q_auto_delete = True\<rparr>"
proof -
  let ?x = "\<lparr>ex_name = ''spammer.events'', ex_type = ''topic'', ex_durable = True,
             ex_auto_delete = True, ex_delivery_mode = PERSISTENT\<rparr>"
  have z: "str_uuid 0 = ''00000000-0000-0000-0000-000000000000''"
    by code_simp
  have a: "started_queue (EventHandler_init ''spammer'' ''spam.ham'' SERVICE_POOL True False)
      [''name'' \<mapsto> ''listener''] 0
     = Inr \<lparr>q_name = ''evt-spammer-spam.ham-listener'', q_exchange = ?x,
            q_routing_key = ''spam.ham'', q_durable = True, q_auto_delete = False\<rparr>"
    by (simp add: started_queue_eq EventHandler_init_def)
  have b: "started_queue (EventHandler_init ''spammer'' ''spam.ham'' BROADCAST False False)
      [''name'' \<mapsto> ''listener''] 0
     = Inr \<lparr>q_name = ''evt-spammer-spam.ham-00000000-0000-0000-0000-000000000000'',
            q_exchange = ?x,
            q_routing_key = ''spam.ham'', q_durable = True, q_auto_delete = True\<rparr>"
    by (simp add: started_queue_eq EventHandler_init_def z)
  from start_queue_binding [OF a] start_queue_binding [OF b] a b show ?thesis
    by (simp add: EventHandler_init_def)
qed

text \<open>Queue names that end in UUID texts differ when the UUIDs do.\<close>

lemma queue_name_suffix:
  assumes "''evt-'' @ s1 @ ''-'' @ t1 @ ''-'' @ x = ''evt-'' @ s2 @ ''-'' @ t2 @ ''-'' @ y"
    and "length x = length y"
  shows "x = y"
proof -
  from assms(1)
  have "(''evt-'' @ s1 @ ''-'' @ t1 @ ''-'') @ x = (''evt-'' @ s2 @ ''-'' @ t2 @ ''-'') @ y"
    by simp
  with assms(2) show ?thesis
    using append_eq_append_conv
      [of "''evt-'' @ s1 @ ''-'' @ t1 @ ''-''" "''evt-'' @ s2 @ ''-'' @ t2 @ ''-''" x y]
    by blast
qed

lemma broadcast_names_distinct:
  assumes "u1 \<noteq> u2"
  shows "''evt-'' @ s1 @ ''-'' @ t1 @ ''-'' @ str_uuid u1
       \<noteq> ''evt-'' @ s2 @ ''-'' @ t2 @ ''-'' @ str_uuid u2"
proof
  assume "''evt-'' @ s1 @ ''-'' @ t1 @ ''-'' @ str_uuid u1
        = ''evt-'' @ s2 @ ''-'' @ t2 @ ''-'' @ str_uuid u2"
  then have "str_uuid u1 = str_uuid u2"
    by (rule queue_name_suffix) (simp add: length_str_uuid)
  then have "u1 = u2" by (rule str_uuid_inj)
  with assms show False by simp
qed

text \<open>
  C8: for a fixed source service, event type and destination service, two
  \<open>SERVICE_POOL\<close> starts give the same queue name, and so do two \<open>SINGLETON\<close> starts,
  whatever the other parameters, the rest of the service context and the UUID source
  are. Two \<open>BROADCAST\<close> starts, of handlers with the same or with different
  parameters, give different queue names; \<open>uuid.uuid4()\<close> is taken to return a fresh
  value at each call, that is, the two starts draw different UUIDs.
\<close>

theorem start_queue_name_determinism:
  assumes "srv_ctx1 ''name'' = Some dest" and "srv_ctx2 ''name'' = Some dest"
  shows "(\<exists>n. map_sum id q_name
              (started_queue (EventHandler_init service_name event_type SERVICE_POOL rd1 rq1)
                 srv_ctx1 u1) = Inr n
            \<and> map_sum id q_name
              (started_queue (EventHandler_init service_name event_type SERVICE_POOL rd2 rq2)
                 srv_ctx2 u2) = Inr n)
       \<and> (\<exists>n. map_sum id q_name
              (started_queue (EventHandler_init service_name event_type SINGLETON rd1 rq1)
                 srv_ctx1 u1) = Inr n
            \<and> map_sum id q_name
              (started_queue (EventHandler_init service_name event_type SINGLETON rd2 rq2)
                 srv_ctx2 u2) = Inr n)
       \<and> (u1 \<noteq> u2 \<longrightarrow>
            (\<exists>n1 n2. map_sum id q_name
                  (started_queue (EventHandler_init s1 t1 BROADCAST rd1 rq1) srv_ctx1 u1) = Inr n1
              \<and> map_sum id q_name
                  (started_queue (EventHandler_init s2 t2 BROADCAST rd2 rq2) srv_ctx2 u2) = Inr n2
              \<and> n1 \<noteq> n2))"
  using assms broadcast_names_distinct [of u1 u2 s1 t1 s2 t2]
  by (simp add: started_queue_eq EventHandler_init_def)

theorem start_queue_name_determinism_witness:
  "[''name'' \<mapsto> ''listener''] ''name'' = Some ''listener''
   \<and> [''name'' \<mapsto> ''listener'', ''port'' \<mapsto> ''5672''] ''name'' = Some ''listener''
   \<and> (\<exists>n. map_sum id q_name
          (started_queue (EventHandler_init ''spammer'' ''spam.ham'' SERVICE_POOL True False)
             [''name'' \<mapsto> ''listener''] 1) = Inr n
        \<and> map_sum id q_name
          (started_queue (EventHandler_init ''spammer'' ''spam.ham'' SERVICE_POOL False True)
             [''name'' \<mapsto> ''listener'', ''port'' \<mapsto> ''5672''] 2) = Inr n)
   \<and> (\<exists>n. map_sum id q_name
          (started_queue (EventHandler_init ''spammer'' ''spam.ham'' SINGLETON True False)
             [''name'' \<mapsto> ''listener''] 1) = Inr n
        \<and> map_sum id q_name
          (started_queue (EventHandler_init ''spammer'' ''spam.ham'' SINGLETON False True)
             [''name'' \<mapsto> ''listener'', ''port'' \<mapsto> ''5672''] 2) = Inr n)
   \<and> (1 :: uuid) \<noteq> 2
   \<and> (\<exists>n1 n2. map_sum id q_name
          (started_queue (EventHandler_init ''spammer'' ''spam.ham'' BROADCAST False False)
             [''name'' \<mapsto> ''listener''] 1) = Inr n1
        \<and> map_sum id q_name
          (started_queue (EventHandler_init ''spammer'' ''spam.ham'' BROADCAST False False)
             [''name'' \<mapsto> ''listener'', ''port'' \<mapsto> ''5672''] 2) = Inr n2
        \<and> n1 \<noteq> n2)"
proof -
  have a: "[''name'' \<mapsto> ''listener''] ''name'' = Some ''listener''" by simp
  have b: "[''name'' \<mapsto> ''listener'', ''port'' \<mapsto> ''5672''] ''name'' = Some ''listener''"
    by simp
  have d: "(1 :: uuid) \<noteq> 2" by simp
  note t = start_queue_name_determinism
    [where ?srv_ctx1.0 = "[''name'' \<mapsto> ''listener'']"
       and ?srv_ctx2.0 = "[''name'' \<mapsto> ''listener'', ''port'' \<mapsto> ''5672'']"
       and dest = "''listener''" and ?u1.0 = 1 and ?u2.0 = 2, OF a b]
  have p: "\<exists>n. map_sum id q_name
          (started_queue (EventHandler_init ''spammer'' ''spam.ham'' SERVICE_POOL True False)
             [''name'' \<mapsto> ''listener''] 1) = Inr n
        \<and> map_sum id q_name
          (started_queue (EventHandler_init ''spammer'' ''spam.ham'' SERVICE_POOL False True)
             [''name'' \<mapsto> ''listener'', ''port'' \<mapsto> ''5672''] 2) = Inr n"
    using t [where service_name = "''spammer''" and event_type = "''spam.ham''"
        and ?rd1.0 = True and ?rq1.0 = False and ?rd2.0 = False and ?rq2.0 = True]
    by (rule conjunct1)
  have s: "\<exists>n. map_sum id q_name
          (started_queue (EventHandler_init ''spammer'' ''spam.ham'' SINGLETON True False)
             [''name'' \<mapsto> ''listener''] 1) = Inr n
        \<and> map_sum id q_name
          (started_queue (EventHandler_init ''spammer'' ''spam.ham'' SINGLETON False True)
             [''name'' \<mapsto> ''listener'', ''port'' \<mapsto> ''5672''] 2) = Inr n"
    using t [where service_name = "''spammer''" and event_type = "''spam.ham''"
        and ?rd1.0 = True and ?rq1.0 = False and ?rd2.0 = False and ?rq2.0 = True]
    by blast
  have c: "\<exists>n1 n2. map_sum id q_name
          (started_queue (EventHandler_init ''spammer'' ''spam.ham'' BROADCAST False False)
             [''name'' \<mapsto> ''listener''] 1) = Inr n1
        \<and> map_sum id q_name
          (started_queue (EventHandler_init ''spammer'' ''spam.ham'' BROADCAST False False)
             [''name'' \<mapsto> ''listener'', ''port'' \<mapsto> ''5672''] 2) = Inr n2
        \<and> n1 \<noteq> n2"
    using t [where ?s1.0 = "''spammer''" and ?t1.0 = "''spam.ham''"
        and ?s2.0 = "''spammer''" and ?t2.0 = "''spam.ham''"
        and ?rd1.0 = False and ?rq1.0 = False and ?rd2.0 = False and ?rq2.0 = False] d
    by blast
  from a b p s d c show ?thesis by blast
qed

text \<open>
  C10: \<open>start\<close> assigns a queue name only in the branches of the three constants,
  compared by identity. For every other handler type, a string equal to one of the
  constants included, \<open>start\<close> raises \<open>UnboundLocalError\<close> before
  \<open>ConsumeProvider.start\<close> is reached, although \<open>event_handler\<close> accepted the value
  with either delivery flag. A handler has a queue after \<open>start\<close> exactly when its type
  is one of the three constants (and, for \<open>SERVICE_POOL\<close>, the service context has a
  name).
\<close>

theorem start_unrecognised_handler_type:
  "start ConsumeProvider_start
      (EventHandler_init service_name event_type (Other_object s)
         reliable_delivery requeue_on_error) srv_ctx u
      = Inl (UnboundLocalError ''queue_name'')
   \<and> event_handler service_name event_type (Other_object s) reliable_delivery requeue_on_error
      = Inr (EventHandler_init service_name event_type (Other_object s)
               reliable_delivery requeue_on_error)
   \<and> py_value (Other_object (py_value BROADCAST)) = py_value BROADCAST
   \<and> Other_object (py_value BROADCAST) \<noteq> BROADCAST
   \<and> (\<exists>q. started_queue self srv_ctx u = Inr q) =
       (eh_handler_type self = SINGLETON \<or> eh_handler_type self = BROADCAST \<or>
        (eh_handler_type self = SERVICE_POOL \<and> srv_ctx ''name'' \<noteq> None))"
  by (auto simp: start_eq started_queue_eq event_handler_def EventHandler_init_def
      split: handler_type_ref.splits option.splits)

section \<open>Defining event kinds\<close>



text \<open>
  The boundary, and the classes of the module's docstrings: a type of 255 bytes is
  accepted and one of 256 is not; \<open>Event\<close> declares its type; a subclass that declares
  none is refused although it would inherit one.
\<close>

lemma EventMeta_new_examples:
  "EventMeta_new ''Long'' [''Event''] [''type'' \<mapsto> PyStr (replicate 255 CHR ''a'')]
     = Inr \<lparr>kind_name = ''Long'', kind_bases = [''Event''],
            kind_dct = [''type'' \<mapsto> PyStr (replicate 255 CHR ''a'')]\<rparr>"
  "EventMeta_new ''Long'' [''Event''] [''type'' \<mapsto> PyStr (replicate 256 CHR ''a'')]
     = Inl (EventTypeTooLong (PyStr (replicate 256 CHR ''a'')))"
  "EventMeta_new ''Event'' [''object''] [''type'' \<mapsto> PyStr ''Event'']
     = Inr \<lparr>kind_name = ''Event'', kind_bases = [''object''],
            kind_dct = [''type'' \<mapsto> PyStr ''Event'']\<rparr>"
  "EventMeta_new ''Untyped'' [''Event''] Map.empty = Inl (EventTypeMissing ''Untyped'')"
  by (simp_all add: EventMeta_new_def EventTypeTooLong_init_def)

text \<open>
  For a text, the bound of the code is on the characters and not on the bytes that the
  docstrings of \<open>EventMeta\<close> and \<open>EventTypeTooLong\<close> name: a text of at most 255
  characters is accepted whatever its size in UTF-8, and a longer one is refused, with
  \<open>EventTypeTooLong\<close> when it is plain ASCII.
\<close>

lemma EventMeta_new_text:
  "EventMeta_new name bases (dct(''type'' \<mapsto> PyUnicode cs))
     = (if length cs > 255 then
          Inl (if list_all (\<lambda>c. c < 128) cs then EventTypeTooLong (PyUnicode cs)
               else UnicodeEncodeError)
        else Inr \<lparr>kind_name = name, kind_bases = bases,
                  kind_dct = dct(''type'' \<mapsto> PyUnicode cs)\<rparr>)"
  by (simp add: EventMeta_new_def EventTypeTooLong_init_def)

section \<open>Dispatching events\<close>

text \<open>
  C7: let a dispatcher be started in a container named \<open>name\<close>, and let an event be
  created with payload \<open>data\<close> from a kind that was defined with type \<open>routing_key\<close>.
  \<open>start\<close> stores \<open>get_event_exchange name\<close> in the dispatcher; dispatching the event
  calls \<open>Publisher.__call__\<close> on that dispatcher with exactly \<open>data\<close> as the message
  and \<open>routing_key\<close> as the routing key. Dispatching reads the stored exchange and
  resolves nothing: for any dispatcher \<open>d\<close> the call hands \<open>d\<close> over as it is.
\<close>

theorem EventDispatcher_publishes:
  assumes "srv_ctx ''name'' = Some name" and "EventMeta_new kname bases dct = Inr kind"
  shows "\<exists>exchange routing_key.
           get_event_exchange name = Inr exchange \<and> dct ''type'' = Some routing_key \<and>
           EventDispatcher_start self srv_ctx = Inr (self\<lparr>ed_exchange := Some exchange\<rparr>) \<and>
           EventDispatcher_call Publisher_call (self\<lparr>ed_exchange := Some exchange\<rparr>)
               (Event_init kind data)
             = Inr (Publisher_call (self\<lparr>ed_exchange := Some exchange\<rparr>) data routing_key) \<and>
           EventDispatcher_call Publisher_call d (Event_init kind data)
             = Inr (Publisher_call d data routing_key)"
  using assms
  by (auto simp: EventDispatcher_start_def EventDispatcher_call_def get_event_exchange_eq
        EventMeta_new_def Event_init_def ev_type_def split: option.splits sum.splits if_splits)

text \<open>
  The example of the class docstring, with a \<open>Publisher.__call__\<close> that reports the
  exchange it finds in the instance, the message and the routing key.
\<close>

theorem EventDispatcher_publishes_witness:
  "[''name'' \<mapsto> ''spammer''] ''name'' = Some ''spammer''
   \<and> EventMeta_new ''MyEvent'' [''Event''] [''type'' \<mapsto> PyStr ''spam.ham'']
       = Inr \<lparr>kind_name = ''MyEvent'', kind_bases = [''Event''],
              kind_dct = [''type'' \<mapsto> PyStr ''spam.ham'']\<rparr>
   \<and> EventDispatcher_start \<lparr>ed_exchange = None\<rparr> [''name'' \<mapsto> ''spammer'']
       = Inr \<lparr>ed_exchange = Some
              \<lparr>ex_name = ''spammer.events'', ex_type = ''topic'', ex_durable = True,
               ex_auto_delete = True, ex_delivery_mode = PERSISTENT\<rparr>\<rparr>
   \<and> EventDispatcher_call (\<lambda>self msg routing_key. (ed_exchange self, msg, routing_key))
        \<lparr>ed_exchange = Some
            \<lparr>ex_name = ''spammer.events'', ex_type = ''topic'', ex_durable = True,
             ex_auto_delete = True, ex_delivery_mode = PERSISTENT\<rparr>\<rparr>
        (Event_init \<lparr>kind_name = ''MyEvent'', kind_bases = [''Event''],
                     kind_dct = [''type'' \<mapsto> PyStr ''spam.ham'']\<rparr> ''ham and eggs'')
       = Inr (Some \<lparr>ex_name = ''spammer.events'', ex_type = ''topic'', ex_durable = True,
                     ex_auto_delete = True, ex_delivery_mode = PERSISTENT\<rparr>,
              ''ham and eggs'', PyStr ''spam.ham'')"
proof -
  let ?dct = "[''type'' \<mapsto> PyStr ''spam.ham'']"
  let ?kind = "\<lparr>kind_name = ''MyEvent'', kind_bases = [''Event''], kind_dct = ?dct\<rparr>"
  have a: "[''name'' \<mapsto> ''spammer''] ''name'' = Some ''spammer''" by simp
  have b: "EventMeta_new ''MyEvent'' [''Event''] ?dct = Inr ?kind"
    by (simp add: EventMeta_new_def)
  have x: "get_event_exchange ''spammer''
       = Inr \<lparr>ex_name = ''spammer.events'', ex_type = ''topic'', ex_durable = True,
              ex_auto_delete = True, ex_delivery_mode = PERSISTENT\<rparr>"
    by (simp add: get_event_exchange_eq)
  have t: "?dct ''type'' = Some (PyStr ''spam.ham'')" by simp
  from EventDispatcher_publishes
     [where srv_ctx = "[''name'' \<mapsto> ''spammer'']" and name = "''spammer''"
        and kname = "''MyEvent''" and bases = "[''Event'']" and dct = ?dct and kind = ?kind
        and self = "\<lparr>ed_exchange = None\<rparr>" and data = "''ham and eggs''"
        and Publisher_call = "\<lambda>self msg routing_key. (ed_exchange self, msg, routing_key)",
      OF a b]
  show ?thesis
    unfolding x t using a b by auto
qed

section \<open>Worker contexts\<close>

text \<open>
  C3: when a maximum depth \<open>cap\<close> is configured and the inherited stack is longer than
  \<open>cap\<close>, the call id stack of the new context is the last \<open>cap\<close> entries of the
  inherited stack followed by the context's own call id, and has length \<open>cap + 1\<close>;
  when no maximum is configured, it is the whole inherited stack followed by the own
  call id.
\<close>

theorem WorkerContext_stack_truncated:
  "(container_parent_calls cont = Some cap \<and> cap < length (inherited_stack data) \<longrightarrow>
      call_id_stack (fst (WorkerContext cont entrypoint_name data seq))
        = drop (length (inherited_stack data) - cap) (inherited_stack data)
          @ [call_id (fst (WorkerContext cont entrypoint_name data seq))]
      \<and> length (call_id_stack (fst (WorkerContext cont entrypoint_name data seq))) = cap + 1)
   \<and> (container_parent_calls cont = None \<longrightarrow>
      call_id_stack (fst (WorkerContext cont entrypoint_name data seq))
        = inherited_stack data @ [call_id (fst (WorkerContext cont entrypoint_name data seq))])"
  by (auto simp: WorkerContext_def Let_def)

text \<open>
  The two tests of the stack: a maximum depth of 1 and the inherited stack
  \<open>['0', ..., '99']\<close> give \<open>['99', 'baz.long.0']\<close>; without a maximum, ten inherited
  entries are all kept.
\<close>

theorem WorkerContext_stack_truncated_witness:
  "container_parent_calls \<lparr>container_service_name = ''baz'', container_parent_calls = Some 1\<rparr>
     = Some 1
   \<and> 1 < length (inherited_stack (Some [''call_id_stack'' \<mapsto> map str_nat [0..<100]]))
   \<and> call_id_stack (fst (WorkerContext
        \<lparr>container_service_name = ''baz'', container_parent_calls = Some 1\<rparr> ''long''
        (Some [''call_id_stack'' \<mapsto> map str_nat [0..<100]]) 0))
      = [''99'', ''baz.long.0'']
   \<and> length (call_id_stack (fst (WorkerContext
        \<lparr>container_service_name = ''baz'', container_parent_calls = Some 1\<rparr> ''long''
        (Some [''call_id_stack'' \<mapsto> map str_nat [0..<100]]) 0))) = 1 + 1
   \<and> container_parent_calls \<lparr>container_service_name = ''baz'', container_parent_calls = None\<rparr>
     = None
   \<and> call_id_stack (fst (WorkerContext
        \<lparr>container_service_name = ''baz'', container_parent_calls = None\<rparr> ''long''
        (Some [''call_id_stack'' \<mapsto> map str_nat [0..<10]]) 2))
      = map str_nat [0..<10] @ [''baz.long.2'']"
proof -
  let ?c1 = "\<lparr>container_service_name = ''baz'', container_parent_calls = Some 1\<rparr>"
  let ?c0 = "\<lparr>container_service_name = ''baz'', container_parent_calls = None\<rparr>"
  let ?d100 = "Some [''call_id_stack'' \<mapsto> map str_nat [0..<100]]"
  let ?d10 = "Some [''call_id_stack'' \<mapsto> map str_nat [0..<10]]"
  have i100: "inherited_stack ?d100 = map str_nat [0..<100]"
    by (simp add: inherited_stack_def)
  have i10: "inherited_stack ?d10 = map str_nat [0..<10]"
    by (simp add: inherited_stack_def)
  have h1: "container_parent_calls ?c1 = Some 1 \<and> 1 < length (inherited_stack ?d100)"
    by (simp add: i100)
  have h0: "container_parent_calls ?c0 = None" by simp
  have d: "drop (length (map str_nat [0..<100]) - 1) (map str_nat [0..<100]) = [''99'']"
    by code_simp
  have id0: "call_id (fst (WorkerContext ?c1 ''long'' ?d100 0)) = ''baz.long.0''"
    by (simp add: WorkerContext_def Let_def str_nat.simps)
  have id2: "call_id (fst (WorkerContext ?c0 ''long'' ?d10 2)) = ''baz.long.2''"
    by (simp add: WorkerContext_def Let_def str_nat.simps)
  note t1 = WorkerContext_stack_truncated
    [of ?c1 1 ?d100 "''long''" 0, THEN conjunct1, rule_format, OF h1]
  note t0 = WorkerContext_stack_truncated
    [of ?c0 0 ?d10 "''long''" 2, THEN conjunct2, rule_format, OF h0]
  from t1 have s1: "call_id_stack (fst (WorkerContext ?c1 ''long'' ?d100 0))
      = [''99'', ''baz.long.0'']"
    unfolding i100 id0 d by simp
  from t1 have l1: "length (call_id_stack (fst (WorkerContext ?c1 ''long'' ?d100 0))) = 1 + 1"
    by (rule conjunct2)
  from t0 have s0: "call_id_stack (fst (WorkerContext ?c0 ''long'' ?d10 2))
      = map str_nat [0..<10] @ [''baz.long.2'']"
    unfolding i10 id2 by simp
  from h1 h0 s1 l1 s0 show ?thesis by blast
qed

text \<open>
  C9: the immediate parent call id of a context is the last entry of the stack passed
  in \<open>data['call_id_stack']\<close>, whatever maximum depth is configured; it is absent when
  that stack is empty, when \<open>data\<close> has no such entry and when no \<open>data\<close> is given.
\<close>

theorem WorkerContext_immediate_parent:
  "immediate_parent_call_id (fst (WorkerContext cont entrypoint_name
       (Some (d(''call_id_stack'' \<mapsto> xs @ [x]))) seq)) = Some x
   \<and> immediate_parent_call_id (fst (WorkerContext cont entrypoint_name
       (Some (d(''call_id_stack'' \<mapsto> []))) seq)) = None
   \<and> immediate_parent_call_id (fst (WorkerContext cont entrypoint_name
       (Some (d(''call_id_stack'' := None))) seq)) = None
   \<and> immediate_parent_call_id (fst (WorkerContext cont entrypoint_name None seq)) = None"
  by (simp add: WorkerContext_def Let_def inherited_stack_def)

text \<open>
  The tests of the repository on the model: the three contexts of
  \<open>test_worker_context_gets_stack\<close>, created one after the other with the sequence
  numbers 0, 1 and 2, and the two of \<open>TestImmediateParentCallId\<close>.
\<close>

lemma test_worker_context_gets_stack:
  "WorkerContext \<lparr>container_service_name = ''baz'', container_parent_calls = None\<rparr>
      ''bar'' None 0
     = (\<lparr>call_id = ''baz.bar.0'', call_id_stack = [''baz.bar.0''],
         immediate_parent_call_id = None\<rparr>, 1)"
  "WorkerContext \<lparr>container_service_name = ''baz'', container_parent_calls = None\<rparr>
      ''foo'' (Some [''call_id_stack'' \<mapsto> [''baz.bar.0'']]) 1
     = (\<lparr>call_id = ''baz.foo.1'', call_id_stack = [''baz.bar.0'', ''baz.foo.1''],
         immediate_parent_call_id = Some ''baz.bar.0''\<rparr>, 2)"
  "call_id_stack (fst (WorkerContext
      \<lparr>container_service_name = ''baz'', container_parent_calls = None\<rparr>
      ''long'' (Some [''call_id_stack'' \<mapsto> map str_nat [0..<10]]) 2))
     = map str_nat [0..<10] @ [''baz.long.2'']"
  by (simp_all add: WorkerContext_def Let_def inherited_stack_def str_nat.simps)

lemma test_immediate_parent_call_id:
  "immediate_parent_call_id (fst (WorkerContext
      \<lparr>container_service_name = ''foo'', container_parent_calls = None\<rparr>
      ''bar'' (Some [''call_id_stack'' \<mapsto> [''parent.method.1'']]) 0))
     = Some ''parent.method.1''"
  "immediate_parent_call_id (fst (WorkerContext
      \<lparr>container_service_name = ''foo'', container_parent_calls = None\<rparr>
      ''bar'' (Some Map.empty) 0))
     = None"
  by (simp_all add: WorkerContext_def Let_def inherited_stack_def)

end
